theory Spec2Isabelle
  imports
    Main
    "HOL-Library.Multiset"
    "HOL-Library.Char_ord"
    "HOL-Library.List_Lexorder"
begin

section \<open>The phonebook API (server.js)\<close>

text \<open>
  The server keeps one SQLite table \<open>contacts(id, name, phone, email)\<close> and serves it over
  four routes. The embedding follows \<open>server.js\<close> line by line: the request body as the
  JavaScript value the handler destructures, the five prepared statements as functions on
  the table, each handler as a function from the table to a reply and the table after it.
  A thrown exception is a value (\<open>Threw\<close>); Express answers it with its status.
\<close>

subsection \<open>JavaScript values\<close>

text \<open>
  \<open>req.body\<close> is what \<open>express.json()\<close> parsed: a JSON value, or \<open>undefined\<close>. A JSON
  number is an IEEE double; the handlers observe two things of it, whether it is falsy
  (\<open>0\<close> and \<open>-0\<close>) and the text SQLite stores when the number lands in a \<open>TEXT\<close> column.
  \<open>JNum z t\<close> keeps exactly these two: \<open>z\<close> says the number is zero, \<open>t\<close> is its text.
  \<open>JObj\<close> lists an object's own properties.
\<close>

datatype js =
    JUndefined
  | JNull
  | JBool bool
  | JNum bool string
  | JStr string
  | JArr "js list"
  | JObj "(string \<times> js) list"

text \<open>JavaScript truthiness, as \<open>!x\<close> and \<open>x || y\<close> read it.\<close>

fun truthy :: "js \<Rightarrow> bool" where
  "truthy JUndefined = False"
| "truthy JNull = False"
| "truthy (JBool b) = b"
| "truthy (JNum z t) = (\<not> z)"
| "truthy (JStr s) = (s \<noteq> [])"
| "truthy (JArr vs) = True"
| "truthy (JObj kvs) = True"

text \<open>
  Reading a property. Only \<open>name\<close>, \<open>phone\<close> and \<open>email\<close> are ever read, and none of
  them is a property of an array, a string, a number or a boolean.
\<close>

fun property :: "js \<Rightarrow> string \<Rightarrow> js" where
  "property (JObj kvs) k = (case map_of kvs k of None \<Rightarrow> JUndefined | Some v \<Rightarrow> v)"
| "property v k = JUndefined"

text \<open>\<open>req.body || {}\<close>\<close>

definition body_or_empty :: "js \<Rightarrow> js" where
  "body_or_empty b = (if truthy b then b else JObj [])"

text \<open>
  \<open>const { name, phone, email = '' } = req.body || {}\<close>:
  the default is taken when the property is \<open>undefined\<close>, and only then.
\<close>

definition destructure :: "js \<Rightarrow> js \<times> js \<times> js" where
  "destructure b =
     (let obj = body_or_empty b; e = property obj ''email''
      in (property obj ''name'', property obj ''phone'',
          if e = JUndefined then JStr [] else e))"

subsection \<open>The table\<close>

text \<open>
  \<open>CREATE TABLE contacts(id TEXT PRIMARY KEY, name TEXT NOT NULL, phone TEXT NOT NULL,
  email TEXT DEFAULT '')\<close>. A row holds text in \<open>id\<close>, \<open>name\<close> and \<open>phone\<close>; \<open>email\<close> may be
  \<open>NULL\<close> (\<open>None\<close>). The table is the list of its rows in insertion order. Strings are
  byte strings, which is what SQLite compares.
\<close>

record contact =
  cid :: string
  name :: string
  phone :: string
  email :: "string option"

type_synonym store = "contact list"

datatype exn = JsonSyntaxError | BindError | ConstraintError

subsection \<open>Binding parameters (better-sqlite3)\<close>

text \<open>
  \<open>stmt.run(a, b, ...)\<close> binds its arguments to the statement's \<open>?\<close> parameters from left
  to right. A number, a string and \<open>null\<close>/\<open>undefined\<close> bind one parameter each; an array
  argument binds one parameter per element; a plain object argument carries named
  parameters, of which these statements have none, and a second object is refused; a
  boolean, and an array or object inside an array, cannot be bound (\<open>TypeError\<close>). The
  call throws (\<open>RangeError\<close>) unless exactly as many values were bound as the statement
  has parameters. Both errors are \<open>BindError\<close> here.
\<close>

datatype sqlval = SqlNull | SqlReal string | SqlText string

fun bind_value :: "js \<Rightarrow> exn + sqlval" where
  "bind_value (JNum z t) = Inr (SqlReal t)"
| "bind_value (JStr s) = Inr (SqlText s)"
| "bind_value JNull = Inr SqlNull"
| "bind_value JUndefined = Inr SqlNull"
| "bind_value (JBool b) = Inl BindError"
| "bind_value (JArr vs) = Inl BindError"
| "bind_value (JObj kvs) = Inl BindError"

fun bind_array :: "js list \<Rightarrow> exn + sqlval list" where
  "bind_array [] = Inr []"
| "bind_array (v # vs) =
     (case bind_value v of
        Inl e \<Rightarrow> Inl e
      | Inr x \<Rightarrow> (case bind_array vs of Inl e \<Rightarrow> Inl e | Inr xs \<Rightarrow> Inr (x # xs)))"

fun bind_args :: "bool \<Rightarrow> js list \<Rightarrow> exn + sqlval list" where
  "bind_args bound_object [] = Inr []"
| "bind_args bound_object (JArr vs # args) =
     (case bind_array vs of
        Inl e \<Rightarrow> Inl e
      | Inr xs \<Rightarrow>
          (case bind_args bound_object args of Inl e \<Rightarrow> Inl e | Inr ys \<Rightarrow> Inr (xs @ ys)))"
| "bind_args bound_object (JObj kvs # args) =
     (if bound_object then Inl BindError else bind_args True args)"
| "bind_args bound_object (v # args) =
     (case bind_value v of
        Inl e \<Rightarrow> Inl e
      | Inr x \<Rightarrow>
          (case bind_args bound_object args of Inl e \<Rightarrow> Inl e | Inr ys \<Rightarrow> Inr (x # ys)))"

definition bind :: "nat \<Rightarrow> js list \<Rightarrow> exn + sqlval list" where
  "bind param_count args =
     (case bind_args False args of
        Inl e \<Rightarrow> Inl e
      | Inr vals \<Rightarrow> if length vals = param_count then Inr vals else Inl BindError)"

text \<open>
  A value stored in a column of \<open>TEXT\<close> affinity: \<open>NULL\<close> stays \<open>NULL\<close>, text stays as it
  is, a number is stored as its text.
\<close>

fun text_affinity :: "sqlval \<Rightarrow> string option" where
  "text_affinity SqlNull = None"
| "text_affinity (SqlReal t) = Some t"
| "text_affinity (SqlText s) = Some s"

subsection \<open>The prepared statements\<close>

text \<open>
  \<open>SELECT id, name, phone, email FROM contacts ORDER BY name\<close>. The default collation
  compares the bytes of two texts, the shorter first when one is a prefix of the other.
  SQL leaves the order of rows with equal names open; the sort here keeps them in table
  order.
\<close>

fun insert_by_name :: "contact \<Rightarrow> contact list \<Rightarrow> contact list" where
  "insert_by_name r [] = [r]"
| "insert_by_name r (x # xs) =
     (if name r \<le> name x then r # x # xs else x # insert_by_name r xs)"

fun order_by_name :: "contact list \<Rightarrow> contact list" where
  "order_by_name [] = []"
| "order_by_name (r # rs) = insert_by_name r (order_by_name rs)"

definition stmtAll_all :: "store \<Rightarrow> contact list" where
  "stmtAll_all db = order_by_name db"

text \<open>
  \<open>SELECT id, name, phone, email FROM contacts WHERE id = ?\<close>, with \<open>get(id)\<close>: the first
  row of that id, or \<open>undefined\<close> (\<open>None\<close>).
\<close>

definition stmtGet_get :: "string \<Rightarrow> store \<Rightarrow> contact option" where
  "stmtGet_get i db = find (\<lambda>r. cid r = i) db"

text \<open>
  \<open>INSERT INTO contacts(id, name, phone, email) VALUES (?, ?, ?, ?)\<close>, with
  \<open>run(id, name, phone, email)\<close>. The id is a string, the other three are whatever the
  body held. The insert fails on \<open>NULL\<close> in a \<open>NOT NULL\<close> column and on an id the table
  already has; a failed statement leaves the table as it was. The first value bound is
  always the id string, so the last branch is taken for \<open>NULL\<close> in \<open>name\<close> or \<open>phone\<close>.
\<close>

definition stmtAdd_run :: "string \<Rightarrow> js \<Rightarrow> js \<Rightarrow> js \<Rightarrow> store \<Rightarrow> exn + store" where
  "stmtAdd_run i n p e db =
     (case bind 4 [JStr i, n, p, e] of
        Inl ex \<Rightarrow> Inl ex
      | Inr vals \<Rightarrow>
          (case map text_affinity vals of
             [Some i', Some n', Some p', e'] \<Rightarrow>
               if i' \<in> set (map cid db) then Inl ConstraintError
               else Inr (db @ [\<lparr>cid = i', name = n', phone = p', email = e'\<rparr>])
           | _ \<Rightarrow> Inl ConstraintError))"

text \<open>
  \<open>UPDATE contacts SET name = ?, phone = ?, email = ? WHERE id = ?\<close>, with
  \<open>run(name, phone, email, id)\<close>. The \<open>NOT NULL\<close> check applies to a row that is updated.
  When four values were bound the last one is the id string (lemma
  \<open>bind_four_last_id\<close> below), so the final branch is never taken.
\<close>

definition stmtUpd_run :: "js \<Rightarrow> js \<Rightarrow> js \<Rightarrow> string \<Rightarrow> store \<Rightarrow> exn + store" where
  "stmtUpd_run n p e i db =
     (case bind 4 [n, p, e, JStr i] of
        Inl ex \<Rightarrow> Inl ex
      | Inr vals \<Rightarrow>
          (case map text_affinity vals of
             [n', p', e', Some i'] \<Rightarrow>
               if i' \<in> set (map cid db) then
                 (case (n', p') of
                    (Some n'', Some p'') \<Rightarrow>
                      Inr (map (\<lambda>r. if cid r = i'
                                     then r\<lparr>name := n'', phone := p'', email := e'\<rparr>
                                     else r) db)
                  | _ \<Rightarrow> Inl ConstraintError)
               else Inr db
           | _ \<Rightarrow> Inr db))"

text \<open>
  \<open>DELETE FROM contacts WHERE id = ?\<close>, with \<open>run(id)\<close>, the id a string: the number of
  rows removed (\<open>info.changes\<close>) and the table after.
\<close>

definition stmtDel_run :: "string \<Rightarrow> store \<Rightarrow> nat \<times> store" where
  "stmtDel_run i db =
     (let db' = filter (\<lambda>r. cid r \<noteq> i) db in (length db - length db', db'))"

subsection \<open>Replies\<close>

datatype resp_body =
    NoBody
  | ErrorJson string
  | ContactJson contact
  | ContactsJson "contact list"

datatype outcome = Reply nat resp_body | Threw exn

text \<open>
  The status the client sees. Express answers an exception with the status the error
  carries, which the JSON body parser sets to 400, and with 500 otherwise.
\<close>

fun http_status :: "outcome \<Rightarrow> nat" where
  "http_status (Reply s b) = s"
| "http_status (Threw JsonSyntaxError) = 400"
| "http_status (Threw BindError) = 500"
| "http_status (Threw ConstraintError) = 500"

subsection \<open>The handlers\<close>

text \<open>
  Each handler returns its reply, or the exception a statement threw, and the table
  after it. \<open>GET /contacts\<close> and \<open>DELETE /contacts/:id\<close> read no body; their requests are
  taken to carry none.
\<close>

definition get_contacts :: "store \<Rightarrow> outcome \<times> store" where
  "get_contacts db = (Reply 200 (ContactsJson (stmtAll_all db)), db)"

text \<open>\<open>uid\<close> is what \<open>uuid()\<close> returns in this request.\<close>

definition post_contacts :: "string \<Rightarrow> js \<Rightarrow> store \<Rightarrow> outcome \<times> store" where
  "post_contacts uid body db =
     (case destructure body of
        (n, p, e) \<Rightarrow>
          if \<not> truthy n \<or> \<not> truthy p then
            (Reply 400 (ErrorJson ''Name and phone are required.''), db)
          else
            (case stmtAdd_run uid n p e db of
               Inl ex \<Rightarrow> (Threw ex, db)
             | Inr db' \<Rightarrow>
                 (case stmtGet_get uid db' of
                    Some created \<Rightarrow> (Reply 201 (ContactJson created), db')
                  | None \<Rightarrow> (Reply 201 NoBody, db'))))"

definition put_contact :: "string \<Rightarrow> js \<Rightarrow> store \<Rightarrow> outcome \<times> store" where
  "put_contact i body db =
     (case destructure body of
        (n, p, e) \<Rightarrow>
          if \<not> truthy n \<or> \<not> truthy p then
            (Reply 400 (ErrorJson ''Name and phone are required.''), db)
          else
            (case stmtGet_get i db of
               None \<Rightarrow> (Reply 404 (ErrorJson ''Contact not found.''), db)
             | Some before \<Rightarrow>
                 (case stmtUpd_run n p e i db of
                    Inl ex \<Rightarrow> (Threw ex, db)
                  | Inr db' \<Rightarrow>
                      (case stmtGet_get i db' of
                         Some updated \<Rightarrow> (Reply 200 (ContactJson updated), db')
                       | None \<Rightarrow> (Reply 200 NoBody, db')))))"

definition delete_contact :: "string \<Rightarrow> store \<Rightarrow> outcome \<times> store" where
  "delete_contact i db =
     (case stmtDel_run i db of
        (changes, db') \<Rightarrow>
          if changes = 0 then (Reply 404 (ErrorJson ''Contact not found.''), db')
          else (Reply 204 NoBody, db'))"

subsection \<open>The routes behind \<open>express.json()\<close>\<close>

text \<open>
  What a request carries as its body: nothing, bytes that are not JSON, or a JSON value.
  \<open>express.json()\<close> runs before the handler: it leaves \<open>req.body\<close> unset when there is no
  body (Express 4 sets it to the empty object, which \<open>req.body || {}\<close> makes the same),
  hands a parsed value on, and ends the request with its error when the body does not
  parse, so that the handler never runs.
\<close>

datatype raw_body = Absent | Malformed | Parsed js

fun express_json :: "raw_body \<Rightarrow> exn + js" where
  "express_json Absent = Inr JUndefined"
| "express_json Malformed = Inl JsonSyntaxError"
| "express_json (Parsed v) = Inr v"

definition POST_contacts :: "string \<Rightarrow> raw_body \<Rightarrow> store \<Rightarrow> outcome \<times> store" where
  "POST_contacts uid raw db =
     (case express_json raw of
        Inl ex \<Rightarrow> (Threw ex, db)
      | Inr body \<Rightarrow> post_contacts uid body db)"

definition PUT_contact :: "string \<Rightarrow> raw_body \<Rightarrow> store \<Rightarrow> outcome \<times> store" where
  "PUT_contact i raw db =
     (case express_json raw of
        Inl ex \<Rightarrow> (Threw ex, db)
      | Inr body \<Rightarrow> put_contact i body db)"

text \<open>The field of a request body, as the handler's destructuring sees it.\<close>

definition field :: "raw_body \<Rightarrow> string \<Rightarrow> js" where
  "field raw k =
     (case express_json raw of
        Inl ex \<Rightarrow> JUndefined
      | Inr body \<Rightarrow> property (body_or_empty body) k)"

subsection \<open>Startup\<close>

text \<open>
  The seeding at lines 47 to 53: \<open>u1\<close> and \<open>u2\<close> are what the two calls of \<open>uuid()\<close>
  return. The seeding statement is the insert of \<open>stmtAdd\<close>. An exception here ends the
  process; the table keeps what was inserted before it.
\<close>

definition startup :: "string \<Rightarrow> string \<Rightarrow> store \<Rightarrow> exn option \<times> store" where
  "startup u1 u2 db =
     (let rowCount = length db in
      if rowCount = 0 then
        (case stmtAdd_run u1 (JStr ''Ron Levi'') (JStr ''050-111-2233'')
                (JStr ''ron@example.com'') db of
           Inl ex \<Rightarrow> (Some ex, db)
         | Inr db1 \<Rightarrow>
             (case stmtAdd_run u2 (JStr ''Marine Azulay'') (JStr ''052-444-5566'')
                     (JStr ''marine@example.com'') db1 of
                Inl ex \<Rightarrow> (Some ex, db1)
              | Inr db2 \<Rightarrow> (None, db2)))
      else (None, db))"

subsection \<open>The invariant of the table\<close>

definition store_inv :: "store \<Rightarrow> bool" where
  "store_inv db =
     (distinct (map cid db) \<and> list_all (\<lambda>r. name r \<noteq> [] \<and> phone r \<noteq> []) db)"

subsection \<open>Vocabulary of the properties\<close>

text \<open>
  A field the check \<open>!name || !phone\<close> takes as missing: absent from the body, \<open>null\<close>,
  the empty string, the number 0, or \<open>false\<close>. An array and an object are never taken as
  missing, whatever they hold.
\<close>

fun falsy :: "js \<Rightarrow> bool" where
  "falsy JUndefined = True"
| "falsy JNull = True"
| "falsy (JBool b) = (\<not> b)"
| "falsy (JNum z t) = z"
| "falsy (JStr s) = (s = [])"
| "falsy (JArr vs) = False"
| "falsy (JObj kvs) = False"

text \<open>An \<open>email\<close> field that is absent, \<open>null\<close>, a string or a number.\<close>

definition plain_email :: "js \<Rightarrow> bool" where
  "plain_email v =
     (case v of
        JUndefined \<Rightarrow> True
      | JNull \<Rightarrow> True
      | JNum z t \<Rightarrow> True
      | JStr s \<Rightarrow> True
      | _ \<Rightarrow> False)"

text \<open>What the \<open>email\<close> column holds after such a value was stored in it.\<close>

fun email_column :: "js \<Rightarrow> string option" where
  "email_column (JStr s) = Some s"
| "email_column (JNum z t) = Some t"
| "email_column v = None"

text \<open>A \<open>name\<close> or \<open>phone\<close> field that is absent, \<open>null\<close> or a string.\<close>

definition string_or_missing :: "js \<Rightarrow> bool" where
  "string_or_missing v =
     (case v of JUndefined \<Rightarrow> True | JNull \<Rightarrow> True | JStr s \<Rightarrow> True | _ \<Rightarrow> False)"

section \<open>Properties\<close>

subsection \<open>Reading the request\<close>

lemma falsy_not_truthy: "falsy v \<Longrightarrow> \<not> truthy v"
  by (cases v) auto

lemma destructure_field:
  "express_json raw = Inr body \<Longrightarrow>
   destructure body =
     (field raw ''name'', field raw ''phone'',
      if field raw ''email'' = JUndefined then JStr [] else field raw ''email'')"
  by (simp add: destructure_def field_def Let_def)

lemma field_Malformed: "field Malformed k = JUndefined"
  by (simp add: field_def)

lemma field_Absent: "field Absent k = JUndefined"
  by (simp add: field_def body_or_empty_def)

lemma field_defined_parsed:
  "field raw k \<noteq> JUndefined \<Longrightarrow> \<exists>body. express_json raw = Inr body"
  by (cases raw) (auto simp: field_def)

subsection \<open>The statements on string fields\<close>

lemma stmtAdd_run_strings:
  assumes "plain_email e"
  shows "stmtAdd_run i (JStr n) (JStr p) e db =
           (if i \<in> set (map cid db) then Inl ConstraintError
            else Inr (db @ [\<lparr>cid = i, name = n, phone = p, email = email_column e\<rparr>]))"
  using assms by (cases e) (auto simp: stmtAdd_run_def bind_def plain_email_def)

lemma stmtUpd_run_strings:
  assumes "plain_email e"
  shows "stmtUpd_run (JStr n) (JStr p) e i db =
           Inr (map (\<lambda>r. if cid r = i
                          then r\<lparr>name := n, phone := p, email := email_column e\<rparr>
                          else r) db)"
proof -
  have same: "i \<notin> set (map cid db) \<Longrightarrow>
        map (\<lambda>r. if cid r = i
                  then r\<lparr>name := n, phone := p, email := email_column e\<rparr>
                  else r) db = db"
    by (induction db) auto
  show ?thesis
    using assms same by (cases e) (auto simp: stmtUpd_run_def bind_def plain_email_def)
qed

lemma stmtGet_get_present:
  "i \<in> set (map cid db) \<Longrightarrow> \<exists>r. stmtGet_get i db = Some r \<and> cid r = i"
  by (induction db) (auto simp: stmtGet_get_def)

lemma stmtGet_get_absent: "i \<notin> set (map cid db) \<Longrightarrow> stmtGet_get i db = None"
  by (induction db) (auto simp: stmtGet_get_def)

lemma stmtGet_get_appended:
  "i \<notin> set (map cid db) \<Longrightarrow> cid r = i \<Longrightarrow> stmtGet_get i (db @ [r]) = Some r"
  by (induction db) (auto simp: stmtGet_get_def)

lemma stmtGet_get_updated:
  assumes "i \<in> set (map cid db)"
  shows "stmtGet_get i
           (map (\<lambda>r. if cid r = i then r\<lparr>name := n, phone := p, email := e\<rparr> else r) db)
         = Some \<lparr>cid = i, name = n, phone = p, email = e\<rparr>"
  using assms by (induction db) (auto simp: stmtGet_get_def)

subsection \<open>POST and PUT with string fields\<close>

lemma post_valid_strings:
  assumes "field raw ''name'' = JStr n" "n \<noteq> []" "field raw ''phone'' = JStr p" "p \<noteq> []"
    and "plain_email (field raw ''email'')" "uid \<notin> set (map cid db)"
  shows "POST_contacts uid raw db =
           (Reply 201 (ContactJson \<lparr>cid = uid, name = n, phone = p,
                         email = (if field raw ''email'' = JUndefined then Some []
                                  else email_column (field raw ''email''))\<rparr>),
            db @ [\<lparr>cid = uid, name = n, phone = p,
                    email = (if field raw ''email'' = JUndefined then Some []
                             else email_column (field raw ''email''))\<rparr>])"
proof -
  obtain body where b: "express_json raw = Inr body"
    using assms(1) field_defined_parsed[of raw "''name''"] by auto
  have pe: "plain_email (JStr [])" by (simp add: plain_email_def)
  show ?thesis
    using assms pe
    by (simp add: POST_contacts_def b post_contacts_def destructure_field[OF b]
        stmtAdd_run_strings stmtGet_get_appended)
qed

lemma put_valid_strings:
  assumes "field raw ''name'' = JStr n" "n \<noteq> []" "field raw ''phone'' = JStr p" "p \<noteq> []"
    and "plain_email (field raw ''email'')" "i \<in> set (map cid db)"
  shows "PUT_contact i raw db =
           (Reply 200 (ContactJson \<lparr>cid = i, name = n, phone = p,
                         email = (if field raw ''email'' = JUndefined then Some []
                                  else email_column (field raw ''email''))\<rparr>),
            map (\<lambda>r. if cid r = i
                      then r\<lparr>name := n, phone := p,
                             email := (if field raw ''email'' = JUndefined then Some []
                                       else email_column (field raw ''email''))\<rparr>
                      else r) db)"
proof -
  obtain body where b: "express_json raw = Inr body"
    using assms(1) field_defined_parsed[of raw "''name''"] by auto
  obtain before where g: "stmtGet_get i db = Some before"
    using stmtGet_get_present[OF assms(6)] by auto
  have pe: "plain_email (JStr [])" by (simp add: plain_email_def)
  show ?thesis
    using assms pe
    by (simp add: PUT_contact_def b put_contact_def destructure_field[OF b] g
        stmtUpd_run_strings stmtGet_get_updated)
qed

lemma put_missing_id:
  assumes "truthy (field raw ''name'')" "truthy (field raw ''phone'')"
    and "i \<notin> set (map cid db)"
  shows "PUT_contact i raw db = (Reply 404 (ErrorJson ''Contact not found.''), db)"
proof -
  have "field raw ''name'' \<noteq> JUndefined"
    using assms(1) by auto
  then obtain body where b: "express_json raw = Inr body"
    using field_defined_parsed by blast
  show ?thesis
    using assms
    by (simp add: PUT_contact_def b put_contact_def destructure_field[OF b]
        stmtGet_get_absent)
qed

subsection \<open>Validation on POST\<close>

text \<open>
  Claim C1, as amended. A \<open>POST /contacts\<close> whose body is missing, is not JSON, or whose
  \<open>name\<close> or \<open>phone\<close> is absent, \<open>null\<close>, the empty string, 0 or \<open>false\<close> is answered
  with 400; the table is the same after it, and so is the list \<open>GET /contacts\<close> returns.
  This holds for every table and whatever \<open>uuid()\<close> would have returned.
\<close>

theorem post_invalid_is_400:
  assumes "raw = Absent \<or> raw = Malformed \<or>
           falsy (field raw ''name'') \<or> falsy (field raw ''phone'')"
  shows "http_status (fst (POST_contacts uid raw db)) = 400 \<and>
         snd (POST_contacts uid raw db) = db \<and>
         fst (get_contacts (snd (POST_contacts uid raw db))) = fst (get_contacts db)"
proof -
  have lacks: "\<not> truthy (field raw ''name'') \<or> \<not> truthy (field raw ''phone'')"
    using assms by (auto simp: field_Absent field_Malformed dest: falsy_not_truthy)
  show ?thesis
  proof (cases "express_json raw")
    case (Inl ex)
    then have "raw = Malformed" by (cases raw) auto
    then show ?thesis by (simp add: POST_contacts_def)
  next
    case (Inr body)
    with lacks show ?thesis
      by (auto simp: POST_contacts_def post_contacts_def destructure_field)
  qed
qed

text \<open>
  The specification's example, a body \<open>{phone: "1"}\<close> with no name, and a body whose
  phone is the number 0.
\<close>

theorem post_invalid_is_400_witness:
  "http_status (fst (POST_contacts ''u1'' (Parsed (JObj [(''phone'', JStr ''1'')]))
      [\<lparr>cid = ''c1'', name = ''B'', phone = ''2'', email = Some []\<rparr>])) = 400 \<and>
   snd (POST_contacts ''u1'' (Parsed (JObj [(''phone'', JStr ''1'')]))
      [\<lparr>cid = ''c1'', name = ''B'', phone = ''2'', email = Some []\<rparr>])
     = [\<lparr>cid = ''c1'', name = ''B'', phone = ''2'', email = Some []\<rparr>] \<and>
   http_status (fst (POST_contacts ''u1''
      (Parsed (JObj [(''name'', JStr ''A''), (''phone'', JNum True ''0.0'')])) [])) = 400"
  using post_invalid_is_400 [of "Parsed (JObj [(''phone'', JStr ''1'')])" "''u1''"
      "[\<lparr>cid = ''c1'', name = ''B'', phone = ''2'', email = Some []\<rparr>]"]
    post_invalid_is_400 [of "Parsed (JObj [(''name'', JStr ''A''), (''phone'', JNum True ''0.0'')])"
      "''u1''" "[]"]
  by (simp add: field_def body_or_empty_def)

text \<open>
  The claim as stated, for every body that lacks a non-empty name, fails on a name that
  is an array. An array is truthy, so the check lets it through. With the empty array
  as \<open>name\<close> three values are bound where the insert has four parameters:
  \<open>stmtAdd.run\<close> throws and the reply is 500. With \<open>[""]\<close> as \<open>name\<close> the reply is 201 and
  the table has a row more.
\<close>

theorem post_array_name_not_400:
  "field (Parsed (JObj [(''name'', JArr []), (''phone'', JStr ''1'')])) ''name'' = JArr [] \<and>
   POST_contacts ''u1'' (Parsed (JObj [(''name'', JArr []), (''phone'', JStr ''1'')]))
     [\<lparr>cid = ''c1'', name = ''B'', phone = ''2'', email = Some []\<rparr>]
     = (Threw BindError, [\<lparr>cid = ''c1'', name = ''B'', phone = ''2'', email = Some []\<rparr>]) \<and>
   http_status (fst (POST_contacts ''u1''
     (Parsed (JObj [(''name'', JArr []), (''phone'', JStr ''1'')]))
     [\<lparr>cid = ''c1'', name = ''B'', phone = ''2'', email = Some []\<rparr>])) = 500 \<and>
   http_status (fst (POST_contacts ''u1''
     (Parsed (JObj [(''name'', JArr [JStr []]), (''phone'', JStr ''1'')]))
     [\<lparr>cid = ''c1'', name = ''B'', phone = ''2'', email = Some []\<rparr>])) = 201 \<and>
   length (snd (POST_contacts ''u1''
     (Parsed (JObj [(''name'', JArr [JStr []]), (''phone'', JStr ''1'')]))
     [\<lparr>cid = ''c1'', name = ''B'', phone = ''2'', email = Some []\<rparr>])) = 2"
  by (simp add: field_def POST_contacts_def post_contacts_def destructure_def
      body_or_empty_def stmtAdd_run_def bind_def stmtGet_get_def)

subsection \<open>PUT: unknown and known ids\<close>

text \<open>
  Claim C2, as amended. Let the body hold a non-empty string as \<open>name\<close> and as \<open>phone\<close>.
  For an id no row has, \<open>PUT /contacts/:id\<close> answers 404 and leaves the table as it was,
  whatever \<open>email\<close> is. For an id some row has, and an \<open>email\<close> that is absent, \<open>null\<close>, a
  string or a number, it answers 200 with the row \<open>stmtGet\<close> reads back from the updated
  table. That row has the id of the request, the name and the phone of the body, and as
  \<open>email\<close> the empty string when the field is absent, \<open>NULL\<close> when it is \<open>null\<close>, the
  string itself, or the text of the number. The table after is the table before with
  these three columns overwritten in the rows of that id, and nothing else changed.
\<close>

theorem put_unknown_id_404_known_id_200:
  assumes "field raw ''name'' = JStr n" "n \<noteq> []" "field raw ''phone'' = JStr p" "p \<noteq> []"
  shows "(i \<notin> set (map cid db) \<longrightarrow>
            PUT_contact i raw db = (Reply 404 (ErrorJson ''Contact not found.''), db)) \<and>
         (i \<in> set (map cid db) \<and> plain_email (field raw ''email'') \<longrightarrow>
            fst (PUT_contact i raw db)
              = Reply 200 (ContactJson
                  \<lparr>cid = i, name = n, phone = p,
                     email = (if field raw ''email'' = JUndefined then Some []
                              else email_column (field raw ''email''))\<rparr>) \<and>
            stmtGet_get i (snd (PUT_contact i raw db))
              = Some \<lparr>cid = i, name = n, phone = p,
                       email = (if field raw ''email'' = JUndefined then Some []
                                else email_column (field raw ''email''))\<rparr> \<and>
            snd (PUT_contact i raw db)
              = map (\<lambda>r. if cid r = i
                          then r\<lparr>name := n, phone := p,
                                 email := (if field raw ''email'' = JUndefined then Some []
                                           else email_column (field raw ''email''))\<rparr>
                          else r) db)"
proof (intro conjI impI)
  assume "i \<notin> set (map cid db)"
  then show "PUT_contact i raw db = (Reply 404 (ErrorJson ''Contact not found.''), db)"
    using assms by (simp add: put_missing_id)
next
  let ?e = "if field raw ''email'' = JUndefined then Some []
            else email_column (field raw ''email'')"
  assume h: "i \<in> set (map cid db) \<and> plain_email (field raw ''email'')"
  then have present: "i \<in> set (map cid db)" and plain: "plain_email (field raw ''email'')"
    by simp_all
  note put = put_valid_strings[OF assms plain present]
  show "fst (PUT_contact i raw db)
          = Reply 200 (ContactJson \<lparr>cid = i, name = n, phone = p, email = ?e\<rparr>)"
    by (simp add: put)
  show "stmtGet_get i (snd (PUT_contact i raw db))
          = Some \<lparr>cid = i, name = n, phone = p, email = ?e\<rparr>"
    using present by (simp add: put stmtGet_get_updated)
  show "snd (PUT_contact i raw db)
          = map (\<lambda>r. if cid r = i then r\<lparr>name := n, phone := p, email := ?e\<rparr> else r) db"
    by (simp add: put)
qed

text \<open>
  An unknown id with a boolean \<open>email\<close>; a known id with \<open>email: null\<close>, with a string
  and with no \<open>email\<close>, on a table of two rows.
\<close>

theorem put_unknown_id_404_known_id_200_witness:
  "PUT_contact ''nobody''
     (Parsed (JObj [(''name'', JStr ''A''), (''phone'', JStr ''1''), (''email'', JBool True)]))
     [\<lparr>cid = ''c1'', name = ''B'', phone = ''2'', email = Some []\<rparr>]
     = (Reply 404 (ErrorJson ''Contact not found.''),
        [\<lparr>cid = ''c1'', name = ''B'', phone = ''2'', email = Some []\<rparr>]) \<and>
   PUT_contact ''c1''
     (Parsed (JObj [(''name'', JStr ''A''), (''phone'', JStr ''1''), (''email'', JNull)]))
     [\<lparr>cid = ''c1'', name = ''B'', phone = ''2'', email = Some ''b@x''\<rparr>,
      \<lparr>cid = ''c2'', name = ''C'', phone = ''3'', email = Some ''c@x''\<rparr>]
     = (Reply 200 (ContactJson \<lparr>cid = ''c1'', name = ''A'', phone = ''1'', email = None\<rparr>),
        [\<lparr>cid = ''c1'', name = ''A'', phone = ''1'', email = None\<rparr>,
         \<lparr>cid = ''c2'', name = ''C'', phone = ''3'', email = Some ''c@x''\<rparr>]) \<and>
   fst (PUT_contact ''c1''
     (Parsed (JObj [(''name'', JStr ''A''), (''phone'', JStr ''1''), (''email'', JStr ''a@x'')]))
     [\<lparr>cid = ''c1'', name = ''B'', phone = ''2'', email = Some ''b@x''\<rparr>])
     = Reply 200 (ContactJson \<lparr>cid = ''c1'', name = ''A'', phone = ''1'', email = Some ''a@x''\<rparr>)"
proof -
  let ?none = "Parsed (JObj [(''name'', JStr ''A''), (''phone'', JStr ''1''), (''email'', JBool True)])"
  let ?null = "Parsed (JObj [(''name'', JStr ''A''), (''phone'', JStr ''1''), (''email'', JNull)])"
  let ?str = "Parsed (JObj [(''name'', JStr ''A''), (''phone'', JStr ''1''), (''email'', JStr ''a@x'')])"
  have f: "field ?none ''name'' = JStr ''A''" "field ?none ''phone'' = JStr ''1''"
    "field ?null ''name'' = JStr ''A''" "field ?null ''phone'' = JStr ''1''"
    "field ?str ''name'' = JStr ''A''" "field ?str ''phone'' = JStr ''1''"
    by (simp_all add: field_def body_or_empty_def)
  have e: "field ?null ''email'' = JNull" "field ?str ''email'' = JStr ''a@x''"
    by (simp_all add: field_def body_or_empty_def)
  have ne: "''A'' \<noteq> []" "''1'' \<noteq> []"
    by simp_all
  have a: "PUT_contact ''nobody'' ?none
             [\<lparr>cid = ''c1'', name = ''B'', phone = ''2'', email = Some []\<rparr>]
           = (Reply 404 (ErrorJson ''Contact not found.''),
              [\<lparr>cid = ''c1'', name = ''B'', phone = ''2'', email = Some []\<rparr>])"
    using put_unknown_id_404_known_id_200 [OF f(1) ne(1) f(2) ne(2), of "''nobody''"
        "[\<lparr>cid = ''c1'', name = ''B'', phone = ''2'', email = Some []\<rparr>]"]
    by simp
  have b: "PUT_contact ''c1'' ?null
             [\<lparr>cid = ''c1'', name = ''B'', phone = ''2'', email = Some ''b@x''\<rparr>,
              \<lparr>cid = ''c2'', name = ''C'', phone = ''3'', email = Some ''c@x''\<rparr>]
           = (Reply 200 (ContactJson \<lparr>cid = ''c1'', name = ''A'', phone = ''1'', email = None\<rparr>),
              [\<lparr>cid = ''c1'', name = ''A'', phone = ''1'', email = None\<rparr>,
               \<lparr>cid = ''c2'', name = ''C'', phone = ''3'', email = Some ''c@x''\<rparr>])"
    using put_unknown_id_404_known_id_200 [OF f(3) ne(1) f(4) ne(2), of "''c1''"
        "[\<lparr>cid = ''c1'', name = ''B'', phone = ''2'', email = Some ''b@x''\<rparr>,
          \<lparr>cid = ''c2'', name = ''C'', phone = ''3'', email = Some ''c@x''\<rparr>]"]
    by (simp add: e plain_email_def prod_eq_iff)
  have c: "fst (PUT_contact ''c1'' ?str
             [\<lparr>cid = ''c1'', name = ''B'', phone = ''2'', email = Some ''b@x''\<rparr>])
           = Reply 200 (ContactJson \<lparr>cid = ''c1'', name = ''A'', phone = ''1'', email = Some ''a@x''\<rparr>)"
    using put_unknown_id_404_known_id_200 [OF f(5) ne(1) f(6) ne(2), of "''c1''"
        "[\<lparr>cid = ''c1'', name = ''B'', phone = ''2'', email = Some ''b@x''\<rparr>]"]
    by (simp add: e plain_email_def)
  from a b c show ?thesis by simp
qed

text \<open>
  The claim as stated fails on a known id when \<open>email\<close> is a boolean: the body
  \<open>{name: "A", phone: "1", email: true}\<close> passes the validation, the row is found, and
  \<open>stmtUpd.run\<close> throws on the boolean. The reply is 500 and the row is not updated.
\<close>

theorem put_boolean_email_500:
  "''c1'' \<in> set (map cid [\<lparr>cid = ''c1'', name = ''B'', phone = ''2'', email = Some []\<rparr>]) \<and>
   PUT_contact ''c1''
     (Parsed (JObj [(''name'', JStr ''A''), (''phone'', JStr ''1''), (''email'', JBool True)]))
     [\<lparr>cid = ''c1'', name = ''B'', phone = ''2'', email = Some []\<rparr>]
   = (Threw BindError, [\<lparr>cid = ''c1'', name = ''B'', phone = ''2'', email = Some []\<rparr>]) \<and>
   http_status (fst (PUT_contact ''c1''
     (Parsed (JObj [(''name'', JStr ''A''), (''phone'', JStr ''1''), (''email'', JBool True)]))
     [\<lparr>cid = ''c1'', name = ''B'', phone = ''2'', email = Some []\<rparr>])) = 500"
  by (simp add: PUT_contact_def put_contact_def destructure_def body_or_empty_def
      stmtGet_get_def stmtUpd_run_def bind_def)

subsection \<open>Validation on PUT comes first\<close>

text \<open>
  Claim C9, as amended. A \<open>PUT /contacts/:id\<close> whose \<open>name\<close> or \<open>phone\<close> is absent,
  \<open>null\<close>, the empty string, 0 or \<open>false\<close> (a missing or unparsable body included) is
  answered with 400 for every id, whether a row has that id or not: the check of the
  body comes before the lookup, so the answer is never 404. The table is left as it was.
\<close>

theorem put_invalid_is_400_before_lookup:
  assumes "falsy (field raw ''name'') \<or> falsy (field raw ''phone'')"
  shows "http_status (fst (PUT_contact i raw db)) = 400 \<and>
         http_status (fst (PUT_contact i raw db)) \<noteq> 404 \<and>
         snd (PUT_contact i raw db) = db"
proof -
  have lacks: "\<not> truthy (field raw ''name'') \<or> \<not> truthy (field raw ''phone'')"
    using assms by (auto dest: falsy_not_truthy)
  show ?thesis
  proof (cases "express_json raw")
    case (Inl ex)
    then have "raw = Malformed" by (cases raw) auto
    then show ?thesis by (simp add: PUT_contact_def)
  next
    case (Inr body)
    with lacks show ?thesis
      by (auto simp: PUT_contact_def put_contact_def destructure_field)
  qed
qed

text \<open>
  An empty name sent to an id that no row has; a body that is not JSON; and \<open>false\<close> as
  phone sent to an id that a row has.
\<close>

theorem put_invalid_is_400_before_lookup_witness:
  "''nobody'' \<notin> set (map cid [\<lparr>cid = ''c1'', name = ''B'', phone = ''2'', email = Some []\<rparr>]) \<and>
   http_status (fst (PUT_contact ''nobody'' (Parsed (JObj [(''name'', JStr []), (''phone'', JStr ''1'')]))
      [\<lparr>cid = ''c1'', name = ''B'', phone = ''2'', email = Some []\<rparr>])) = 400 \<and>
   http_status (fst (PUT_contact ''nobody'' Malformed
      [\<lparr>cid = ''c1'', name = ''B'', phone = ''2'', email = Some []\<rparr>])) = 400 \<and>
   PUT_contact ''c1'' (Parsed (JObj [(''name'', JStr ''A''), (''phone'', JBool False)]))
      [\<lparr>cid = ''c1'', name = ''B'', phone = ''2'', email = Some []\<rparr>]
     = (Reply 400 (ErrorJson ''Name and phone are required.''),
        [\<lparr>cid = ''c1'', name = ''B'', phone = ''2'', email = Some []\<rparr>])"
  using put_invalid_is_400_before_lookup [of "Parsed (JObj [(''name'', JStr []), (''phone'', JStr ''1'')])"
      "''nobody''" "[\<lparr>cid = ''c1'', name = ''B'', phone = ''2'', email = Some []\<rparr>]"]
    put_invalid_is_400_before_lookup [of Malformed
      "''nobody''" "[\<lparr>cid = ''c1'', name = ''B'', phone = ''2'', email = Some []\<rparr>]"]
    put_invalid_is_400_before_lookup [of "Parsed (JObj [(''name'', JStr ''A''), (''phone'', JBool False)])"
      "''c1''" "[\<lparr>cid = ''c1'', name = ''B'', phone = ''2'', email = Some []\<rparr>]"]
  by (simp add: field_def body_or_empty_def PUT_contact_def put_contact_def destructure_def)

text \<open>
  The claim as stated, for every body that lacks a non-empty name, fails on a name that
  is an array. With the empty array as \<open>name\<close> the check passes, the lookup runs, and
  an id that no row has is answered 404.
\<close>

theorem put_array_name_unknown_id_404:
  "field (Parsed (JObj [(''name'', JArr []), (''phone'', JStr ''1'')])) ''name'' = JArr [] \<and>
   ''nobody'' \<notin> set (map cid [\<lparr>cid = ''c1'', name = ''B'', phone = ''2'', email = Some []\<rparr>]) \<and>
   PUT_contact ''nobody'' (Parsed (JObj [(''name'', JArr []), (''phone'', JStr ''1'')]))
     [\<lparr>cid = ''c1'', name = ''B'', phone = ''2'', email = Some []\<rparr>]
     = (Reply 404 (ErrorJson ''Contact not found.''),
        [\<lparr>cid = ''c1'', name = ''B'', phone = ''2'', email = Some []\<rparr>]) \<and>
   http_status (fst (PUT_contact ''nobody''
     (Parsed (JObj [(''name'', JArr []), (''phone'', JStr ''1'')]))
     [\<lparr>cid = ''c1'', name = ''B'', phone = ''2'', email = Some []\<rparr>])) = 404"
  by (simp add: field_def PUT_contact_def put_contact_def destructure_def
      body_or_empty_def stmtGet_get_def)

subsection \<open>DELETE\<close>

lemma filter_absent_id: "i \<notin> set (map cid db) \<Longrightarrow> filter (\<lambda>r. cid r \<noteq> i) db = db"
  by (induction db) auto

lemma changes_zero_iff:
  "(length db - length (filter (\<lambda>r. cid r \<noteq> i) db) = 0) = (i \<notin> set (map cid db))"
proof (cases "i \<in> set (map cid db)")
  case True
  then obtain r where "r \<in> set db" and "\<not> cid r \<noteq> i"
    by auto
  then have "length (filter (\<lambda>r. cid r \<noteq> i) db) < length db"
    by (rule length_filter_less)
  with True show ?thesis by simp
next
  case False
  then show ?thesis by (simp add: filter_absent_id)
qed

lemma delete_contact_absent:
  "i \<notin> set (map cid db) \<Longrightarrow> delete_contact i db = (Reply 404 (ErrorJson ''Contact not found.''), db)"
  using changes_zero_iff[of db i]
  by (simp add: delete_contact_def stmtDel_run_def Let_def filter_absent_id)

lemma delete_contact_present:
  "i \<in> set (map cid db) \<Longrightarrow> delete_contact i db = (Reply 204 NoBody, filter (\<lambda>r. cid r \<noteq> i) db)"
  using changes_zero_iff[of db i]
  by (simp add: delete_contact_def stmtDel_run_def Let_def)

text \<open>
  Claim C3. \<open>DELETE /contacts/:id\<close> on an id some row has answers 204 with no body and
  leaves the table without the rows of that id, all others kept in place; a second
  \<open>DELETE\<close> of the same id then answers 404. On an id no row has it answers 404 and the
  table is unchanged.
\<close>

theorem delete_204_then_404:
  "(i \<in> set (map cid db) \<longrightarrow>
      delete_contact i db = (Reply 204 NoBody, filter (\<lambda>r. cid r \<noteq> i) db) \<and>
      i \<notin> set (map cid (snd (delete_contact i db))) \<and>
      delete_contact i (snd (delete_contact i db))
        = (Reply 404 (ErrorJson ''Contact not found.''), snd (delete_contact i db))) \<and>
   (i \<notin> set (map cid db) \<longrightarrow>
      delete_contact i db = (Reply 404 (ErrorJson ''Contact not found.''), db))"
proof (intro conjI impI)
  assume present: "i \<in> set (map cid db)"
  show first: "delete_contact i db = (Reply 204 NoBody, filter (\<lambda>r. cid r \<noteq> i) db)"
    using present by (rule delete_contact_present)
  show gone: "i \<notin> set (map cid (snd (delete_contact i db)))"
    by (auto simp: first)
  show "delete_contact i (snd (delete_contact i db))
        = (Reply 404 (ErrorJson ''Contact not found.''), snd (delete_contact i db))"
    using gone by (rule delete_contact_absent)
next
  assume "i \<notin> set (map cid db)"
  then show "delete_contact i db = (Reply 404 (ErrorJson ''Contact not found.''), db)"
    by (rule delete_contact_absent)
qed

theorem delete_204_then_404_witness:
  "delete_contact ''c1'' [\<lparr>cid = ''c1'', name = ''B'', phone = ''2'', email = Some []\<rparr>,
                          \<lparr>cid = ''c2'', name = ''A'', phone = ''3'', email = None\<rparr>]
     = (Reply 204 NoBody, [\<lparr>cid = ''c2'', name = ''A'', phone = ''3'', email = None\<rparr>]) \<and>
   delete_contact ''c1'' [\<lparr>cid = ''c2'', name = ''A'', phone = ''3'', email = None\<rparr>]
     = (Reply 404 (ErrorJson ''Contact not found.''),
        [\<lparr>cid = ''c2'', name = ''A'', phone = ''3'', email = None\<rparr>])"
  using delete_204_then_404 [of "''c1''" "[\<lparr>cid = ''c1'', name = ''B'', phone = ''2'', email = Some []\<rparr>,
                          \<lparr>cid = ''c2'', name = ''A'', phone = ''3'', email = None\<rparr>]"]
  by auto

subsection \<open>Startup\<close>

text \<open>
  Claim C8. Startup on an empty table leaves exactly two rows, named \<open>Ron Levi\<close> and
  \<open>Marine Azulay\<close>, in this order of insertion; startup on a table that has a row inserts
  nothing. The two ids are the two results of \<open>uuid()\<close>, which are taken to differ.
\<close>

theorem startup_seeds_empty_table_only:
  "(u1 \<noteq> u2 \<longrightarrow>
      startup u1 u2 [] =
        (None, [\<lparr>cid = u1, name = ''Ron Levi'', phone = ''050-111-2233'', email = Some ''ron@example.com''\<rparr>,
                \<lparr>cid = u2, name = ''Marine Azulay'', phone = ''052-444-5566'', email = Some ''marine@example.com''\<rparr>])) \<and>
   (db \<noteq> [] \<longrightarrow> startup u1 u2 db = (None, db))"
proof -
  have pe: "\<And>s. plain_email (JStr s)" by (simp add: plain_email_def)
  show ?thesis
    by (simp add: startup_def Let_def stmtAdd_run_strings pe)
qed

theorem startup_seeds_empty_table_only_witness:
  "map name (snd (startup ''u1'' ''u2'' [])) = [''Ron Levi'', ''Marine Azulay''] \<and>
   snd (startup ''u1'' ''u2'' [\<lparr>cid = ''c2'', name = ''A'', phone = ''3'', email = None\<rparr>])
     = [\<lparr>cid = ''c2'', name = ''A'', phone = ''3'', email = None\<rparr>]"
  using startup_seeds_empty_table_only [of "''u1''" "''u2''" "[\<lparr>cid = ''c2'', name = ''A'', phone = ''3'', email = None\<rparr>]"]
  by simp

subsection \<open>GET /contacts\<close>

lemma mset_insert_by_name: "mset (insert_by_name r xs) = add_mset r (mset xs)"
  by (induction xs) auto

lemma mset_order_by_name: "mset (order_by_name xs) = mset xs"
  by (induction xs) (auto simp: mset_insert_by_name)

lemma set_insert_by_name: "set (insert_by_name r xs) = insert r (set xs)"
  by (induction xs) auto

lemma sorted_insert_by_name:
  "sorted (map name xs) \<Longrightarrow> sorted (map name (insert_by_name r xs))"
  by (induction xs) (auto simp: set_insert_by_name)

lemma sorted_order_by_name: "sorted (map name (order_by_name xs))"
  by (induction xs) (auto simp: sorted_insert_by_name)

lemma sorted_names_position:
  assumes "sorted (map name rows)" "a \<in> set rows" "z \<in> set rows" "name a < name z"
  shows "\<exists>i j. i < j \<and> j < length rows \<and> rows ! i = a \<and> rows ! j = z"
proof -
  obtain i where i: "i < length rows" "rows ! i = a"
    using assms(2) by (auto simp: in_set_conv_nth)
  obtain j where j: "j < length rows" "rows ! j = z"
    using assms(3) by (auto simp: in_set_conv_nth)
  have "i < j"
  proof (rule ccontr)
    assume "\<not> i < j"
    then have "j \<le> i" by simp
    then have "map name rows ! j \<le> map name rows ! i"
      using assms(1) i(1) by (simp add: sorted_iff_nth_mono del: nth_map)
    then have "name z \<le> name a"
      using i j by simp
    with assms(4) show False by simp
  qed
  with i j show ?thesis by blast
qed

text \<open>
  Claim C4. For every table, \<open>GET /contacts\<close> answers 200 with one array that holds every
  row of the table exactly once, ordered by \<open>name\<close> ascending in the lexicographic order
  of the bytes. In particular, after a \<open>POST\<close> of a contact named \<open>Zed\<close> and then one of
  a contact named \<open>Amy\<close> (with non-empty phones and fresh ids \<open>u1\<close>, \<open>u2\<close>), the list
  has the new \<open>Amy\<close> at a smaller index than the new \<open>Zed\<close>, whatever the table held
  before.
\<close>

theorem get_contacts_sorted_by_name:
  "(\<exists>rows. get_contacts db = (Reply 200 (ContactsJson rows), db) \<and>
           mset rows = mset db \<and> sorted (map name rows)) \<and>
   (p1 \<noteq> [] \<and> p2 \<noteq> [] \<and> u1 \<notin> set (map cid db) \<and> u2 \<notin> set (map cid db) \<and> u1 \<noteq> u2 \<longrightarrow>
      (\<exists>rows i j.
          fst (get_contacts
                 (snd (POST_contacts u2 (Parsed (JObj [(''name'', JStr ''Amy''), (''phone'', JStr p2)]))
                   (snd (POST_contacts u1 (Parsed (JObj [(''name'', JStr ''Zed''), (''phone'', JStr p1)])) db)))))
            = Reply 200 (ContactsJson rows) \<and>
          i < j \<and> j < length rows \<and>
          rows ! i = \<lparr>cid = u2, name = ''Amy'', phone = p2, email = Some []\<rparr> \<and>
          rows ! j = \<lparr>cid = u1, name = ''Zed'', phone = p1, email = Some []\<rparr>))"
proof (intro conjI impI)
  show "\<exists>rows. get_contacts db = (Reply 200 (ContactsJson rows), db) \<and>
           mset rows = mset db \<and> sorted (map name rows)"
    by (simp add: get_contacts_def stmtAll_all_def mset_order_by_name sorted_order_by_name)
next
  let ?zed = "\<lparr>cid = u1, name = ''Zed'', phone = p1, email = Some []\<rparr>"
  let ?amy = "\<lparr>cid = u2, name = ''Amy'', phone = p2, email = Some []\<rparr>"
  let ?rawZ = "Parsed (JObj [(''name'', JStr ''Zed''), (''phone'', JStr p1)])"
  let ?rawA = "Parsed (JObj [(''name'', JStr ''Amy''), (''phone'', JStr p2)])"
  assume h: "p1 \<noteq> [] \<and> p2 \<noteq> [] \<and> u1 \<notin> set (map cid db) \<and> u2 \<notin> set (map cid db) \<and> u1 \<noteq> u2"
  have fz: "field ?rawZ ''name'' = JStr ''Zed''" "field ?rawZ ''phone'' = JStr p1"
    "field ?rawZ ''email'' = JUndefined"
    by (simp_all add: field_def body_or_empty_def)
  have fa: "field ?rawA ''name'' = JStr ''Amy''" "field ?rawA ''phone'' = JStr p2"
    "field ?rawA ''email'' = JUndefined"
    by (simp_all add: field_def body_or_empty_def)
  have pe: "plain_email JUndefined"
    by (simp add: plain_email_def)
  have post1: "POST_contacts u1 ?rawZ db = (Reply 201 (ContactJson ?zed), db @ [?zed])"
    using post_valid_strings[of ?rawZ "''Zed''" p1 u1 db] h fz pe by simp
  have fresh: "u2 \<notin> set (map cid (db @ [?zed]))"
    using h by auto
  have post2: "POST_contacts u2 ?rawA (db @ [?zed])
                 = (Reply 201 (ContactJson ?amy), db @ [?zed] @ [?amy])"
    using post_valid_strings[of ?rawA "''Amy''" p2 u2 "db @ [?zed]"] h fa pe fresh by simp
  let ?rows = "order_by_name (db @ [?zed] @ [?amy])"
  have "set ?rows = set (db @ [?zed] @ [?amy])"
    using mset_order_by_name[of "db @ [?zed] @ [?amy]"] by (metis set_mset_mset)
  then have mem: "?amy \<in> set ?rows" "?zed \<in> set ?rows"
    by simp_all
  have "name ?amy < name ?zed"
    by simp
  then obtain i j where "i < j" "j < length ?rows" "?rows ! i = ?amy" "?rows ! j = ?zed"
    using sorted_names_position[OF sorted_order_by_name mem] by blast
  then show "\<exists>rows i j.
          fst (get_contacts (snd (POST_contacts u2 ?rawA (snd (POST_contacts u1 ?rawZ db)))))
            = Reply 200 (ContactsJson rows) \<and>
          i < j \<and> j < length rows \<and> rows ! i = ?amy \<and> rows ! j = ?zed"
    by (auto simp: post1 post2 get_contacts_def stmtAll_all_def)
qed

text \<open>On an empty table the list after the two requests is \<open>Amy\<close>, \<open>Zed\<close>.\<close>

theorem get_contacts_sorted_by_name_witness:
  "fst (get_contacts
          (snd (POST_contacts ''u2'' (Parsed (JObj [(''name'', JStr ''Amy''), (''phone'', JStr ''2'')]))
            (snd (POST_contacts ''u1'' (Parsed (JObj [(''name'', JStr ''Zed''), (''phone'', JStr ''1'')])) [])))))
     = Reply 200 (ContactsJson [\<lparr>cid = ''u2'', name = ''Amy'', phone = ''2'', email = Some []\<rparr>,
                                \<lparr>cid = ''u1'', name = ''Zed'', phone = ''1'', email = Some []\<rparr>])"
  using get_contacts_sorted_by_name [of "[]" "''1''" "''2''" "''u1''" "''u2''"]
  by (simp add: get_contacts_def stmtAll_all_def POST_contacts_def post_contacts_def
      destructure_def body_or_empty_def stmtAdd_run_def bind_def stmtGet_get_def)

subsection \<open>The default of \<open>email\<close>\<close>

text \<open>
  Claim C6. Let the body hold a non-empty string as \<open>name\<close> and as \<open>phone\<close> and no
  \<open>email\<close>. A \<open>POST\<close> (with a fresh id from \<open>uuid()\<close>) answers 201 with the created
  row as \<open>stmtGet\<close> reads it back; a \<open>PUT\<close> on an id some row has answers 200 with the
  updated row as read back. In both the row stored and returned has the name and phone
  of the request and the empty string as \<open>email\<close>.
\<close>

theorem absent_email_is_empty_string:
  assumes "field raw ''name'' = JStr n" "n \<noteq> []" "field raw ''phone'' = JStr p" "p \<noteq> []"
    and "field raw ''email'' = JUndefined"
  shows "(uid \<notin> set (map cid db) \<longrightarrow>
            POST_contacts uid raw db
              = (Reply 201 (ContactJson \<lparr>cid = uid, name = n, phone = p, email = Some []\<rparr>),
                 db @ [\<lparr>cid = uid, name = n, phone = p, email = Some []\<rparr>]) \<and>
            stmtGet_get uid (snd (POST_contacts uid raw db))
              = Some \<lparr>cid = uid, name = n, phone = p, email = Some []\<rparr>) \<and>
         (i \<in> set (map cid db) \<longrightarrow>
            fst (PUT_contact i raw db)
              = Reply 200 (ContactJson \<lparr>cid = i, name = n, phone = p, email = Some []\<rparr>) \<and>
            stmtGet_get i (snd (PUT_contact i raw db))
              = Some \<lparr>cid = i, name = n, phone = p, email = Some []\<rparr>)"
proof -
  have pe: "plain_email (field raw ''email'')"
    using assms(5) by (simp add: plain_email_def)
  show ?thesis
    using assms(5)
    by (auto simp: post_valid_strings[OF assms(1-4) pe] put_valid_strings[OF assms(1-4) pe]
        stmtGet_get_appended stmtGet_get_updated)
qed

text \<open>The specification's round trip, \<open>{name: "A", phone: "1"}\<close>.\<close>

theorem absent_email_is_empty_string_witness:
  "POST_contacts ''u1'' (Parsed (JObj [(''name'', JStr ''A''), (''phone'', JStr ''1'')])) []
     = (Reply 201 (ContactJson \<lparr>cid = ''u1'', name = ''A'', phone = ''1'', email = Some []\<rparr>),
        [\<lparr>cid = ''u1'', name = ''A'', phone = ''1'', email = Some []\<rparr>]) \<and>
   fst (PUT_contact ''c1'' (Parsed (JObj [(''name'', JStr ''A''), (''phone'', JStr ''1'')]))
          [\<lparr>cid = ''c1'', name = ''B'', phone = ''2'', email = Some ''b@example.com''\<rparr>])
     = Reply 200 (ContactJson \<lparr>cid = ''c1'', name = ''A'', phone = ''1'', email = Some []\<rparr>)"
proof -
  have f: "field (Parsed (JObj [(''name'', JStr ''A''), (''phone'', JStr ''1'')])) ''name'' = JStr ''A''"
    "field (Parsed (JObj [(''name'', JStr ''A''), (''phone'', JStr ''1'')])) ''phone'' = JStr ''1''"
    "field (Parsed (JObj [(''name'', JStr ''A''), (''phone'', JStr ''1'')])) ''email'' = JUndefined"
    by (simp_all add: field_def body_or_empty_def)
  have ne: "''A'' \<noteq> []" "''1'' \<noteq> []"
    by simp_all
  show ?thesis
    using absent_email_is_empty_string [OF f(1) ne(1) f(2) ne(2) f(3), of "''u1''" "[]" "''c1''"]
      absent_email_is_empty_string [OF f(1) ne(1) f(2) ne(2) f(3), of "''u1''"
        "[\<lparr>cid = ''c1'', name = ''B'', phone = ''2'', email = Some ''b@example.com''\<rparr>]" "''c1''"]
    by simp
qed

text \<open>
  The value the handlers pass to the statements as \<open>email\<close>: the default for an absent
  field, and the field itself for every other value, \<open>null\<close> included.
\<close>

lemma email_default_only_when_absent:
  assumes "express_json raw = Inr body"
  shows "snd (snd (destructure body)) =
           (if field raw ''email'' = JUndefined then JStr [] else field raw ''email'')"
  using assms by (simp add: destructure_field)

text \<open>
  Claim C10. The default applies to an absent \<open>email\<close> only. With \<open>email: null\<close> in the
  body (name and phone non-empty strings), a \<open>POST\<close> with a fresh id and a \<open>PUT\<close> on an id
  some row has store \<open>NULL\<close> in the \<open>email\<close> column and return the row with \<open>email\<close>
  \<open>null\<close>: the \<open>email\<close> of a returned contact is not always a string.
\<close>

theorem null_email_is_stored_as_null:
  assumes "field raw ''name'' = JStr n" "n \<noteq> []" "field raw ''phone'' = JStr p" "p \<noteq> []"
    and "field raw ''email'' = JNull"
  shows "(uid \<notin> set (map cid db) \<longrightarrow>
            POST_contacts uid raw db
              = (Reply 201 (ContactJson \<lparr>cid = uid, name = n, phone = p, email = None\<rparr>),
                 db @ [\<lparr>cid = uid, name = n, phone = p, email = None\<rparr>]) \<and>
            stmtGet_get uid (snd (POST_contacts uid raw db))
              = Some \<lparr>cid = uid, name = n, phone = p, email = None\<rparr>) \<and>
         (i \<in> set (map cid db) \<longrightarrow>
            fst (PUT_contact i raw db)
              = Reply 200 (ContactJson \<lparr>cid = i, name = n, phone = p, email = None\<rparr>) \<and>
            stmtGet_get i (snd (PUT_contact i raw db))
              = Some \<lparr>cid = i, name = n, phone = p, email = None\<rparr>)"
proof -
  have pe: "plain_email (field raw ''email'')"
    using assms(5) by (simp add: plain_email_def)
  show ?thesis
    using assms(5)
    by (auto simp: post_valid_strings[OF assms(1-4) pe] put_valid_strings[OF assms(1-4) pe]
        stmtGet_get_appended stmtGet_get_updated)
qed

theorem null_email_is_stored_as_null_witness:
  "POST_contacts ''u1'' (Parsed (JObj [(''name'', JStr ''A''), (''phone'', JStr ''1''), (''email'', JNull)])) []
     = (Reply 201 (ContactJson \<lparr>cid = ''u1'', name = ''A'', phone = ''1'', email = None\<rparr>),
        [\<lparr>cid = ''u1'', name = ''A'', phone = ''1'', email = None\<rparr>]) \<and>
   fst (PUT_contact ''c1'' (Parsed (JObj [(''name'', JStr ''A''), (''phone'', JStr ''1''), (''email'', JNull)]))
          [\<lparr>cid = ''c1'', name = ''B'', phone = ''2'', email = Some ''b@example.com''\<rparr>])
     = Reply 200 (ContactJson \<lparr>cid = ''c1'', name = ''A'', phone = ''1'', email = None\<rparr>)"
proof -
  have f: "field (Parsed (JObj [(''name'', JStr ''A''), (''phone'', JStr ''1''), (''email'', JNull)])) ''name'' = JStr ''A''"
    "field (Parsed (JObj [(''name'', JStr ''A''), (''phone'', JStr ''1''), (''email'', JNull)])) ''phone'' = JStr ''1''"
    "field (Parsed (JObj [(''name'', JStr ''A''), (''phone'', JStr ''1''), (''email'', JNull)])) ''email'' = JNull"
    by (simp_all add: field_def body_or_empty_def)
  have ne: "''A'' \<noteq> []" "''1'' \<noteq> []"
    by simp_all
  show ?thesis
    using null_email_is_stored_as_null [OF f(1) ne(1) f(2) ne(2) f(3), of "''u1''" "[]" "''c1''"]
      null_email_is_stored_as_null [OF f(1) ne(1) f(2) ne(2) f(3), of "''u1''"
        "[\<lparr>cid = ''c1'', name = ''B'', phone = ''2'', email = Some ''b@example.com''\<rparr>]" "''c1''"]
    by simp
qed

subsection \<open>What a PUT may change\<close>

text \<open>
  The id is the last argument of \<open>stmtUpd.run\<close> and a string, so whatever the three
  values before it bind, the last parameter, the one of \<open>WHERE id = ?\<close>, is the id of
  the request.
\<close>

lemma bind_args_last_string:
  "bind_args b args = Inr vals \<Longrightarrow> args \<noteq> [] \<Longrightarrow> last args = JStr i \<Longrightarrow>
   vals \<noteq> [] \<and> last vals = SqlText i"
proof (induction args arbitrary: b vals)
  case Nil
  then show ?case by simp
next
  case (Cons v args)
  show ?case
  proof (cases "args = []")
    case True
    with Cons.prems show ?thesis
      by (cases v) auto
  next
    case False
    with Cons.prems have rest: "last args = JStr i"
      by simp
    note IH = Cons.IH[OF _ False rest]
    show ?thesis
    proof (cases v)
      case (JArr vs)
      with Cons.prems IH show ?thesis
        by (auto split: sum.splits)
    next
      case (JObj kvs)
      with Cons.prems IH show ?thesis
        by (auto split: if_splits)
    qed (insert Cons.prems IH, auto split: sum.splits)
  qed
qed

lemma bind_four_last_id:
  assumes "bind 4 [n, p, e, JStr i] = Inr vals"
  shows "\<exists>a b c. vals = [a, b, c, SqlText i]"
proof -
  have args: "bind_args False [n, p, e, JStr i] = Inr vals" and len: "length vals = 4"
    using assms by (auto simp: bind_def split: sum.splits if_splits)
  have "last vals = SqlText i"
    using bind_args_last_string[OF args] by simp
  moreover obtain a b c d where "vals = [a, b, c, d]"
    using len by (auto simp: length_Suc_conv numeral_eq_Suc)
  ultimately show ?thesis by simp
qed

lemma stmtUpd_run_shape:
  assumes "stmtUpd_run n p e i db = Inr db'"
  shows "db' = db \<or>
         (\<exists>n' p' e'. db' = map (\<lambda>r. if cid r = i
                                      then r\<lparr>name := n', phone := p', email := e'\<rparr>
                                      else r) db)"
proof -
  obtain vals where b: "bind 4 [n, p, e, JStr i] = Inr vals"
    using assms by (auto simp: stmtUpd_run_def split: sum.splits)
  then obtain a b' c where vals: "vals = [a, b', c, SqlText i]"
    using bind_four_last_id by blast
  show ?thesis
    using assms
    by (auto simp: stmtUpd_run_def b vals split: option.splits if_splits)
qed

lemma put_contact_200_store:
  assumes "fst (PUT_contact i raw db) = Reply 200 b"
  shows "\<exists>n p e. stmtUpd_run n p e i db = Inr (snd (PUT_contact i raw db))"
  using assms
  by (auto simp: PUT_contact_def put_contact_def
      split: sum.splits prod.splits if_splits option.splits)

text \<open>
  Claim C7. After a \<open>PUT /contacts/:id\<close> that answers 200 the table has as many rows as
  before; every row keeps its position and its id, and every row whose id is not the
  one of the request is the very same row as before. Only \<open>name\<close>, \<open>phone\<close> and \<open>email\<close>
  of the rows with that id can differ. This holds for every body.
\<close>

theorem put_changes_only_the_matching_row:
  assumes "fst (PUT_contact i raw db) = Reply 200 b"
  shows "length (snd (PUT_contact i raw db)) = length db \<and>
         (\<forall>k < length db.
            cid (snd (PUT_contact i raw db) ! k) = cid (db ! k) \<and>
            (cid (db ! k) \<noteq> i \<longrightarrow> snd (PUT_contact i raw db) ! k = db ! k))"
proof -
  obtain n p e where "stmtUpd_run n p e i db = Inr (snd (PUT_contact i raw db))"
    using put_contact_200_store[OF assms] by blast
  then have "snd (PUT_contact i raw db) = db \<or>
         (\<exists>n' p' e'. snd (PUT_contact i raw db)
             = map (\<lambda>r. if cid r = i then r\<lparr>name := n', phone := p', email := e'\<rparr> else r) db)"
    by (rule stmtUpd_run_shape)
  then show ?thesis
    by auto
qed

theorem put_changes_only_the_matching_row_witness:
  "snd (PUT_contact ''c1'' (Parsed (JObj [(''name'', JStr ''A''), (''phone'', JStr ''1'')]))
          [\<lparr>cid = ''c1'', name = ''B'', phone = ''2'', email = Some ''b@example.com''\<rparr>,
           \<lparr>cid = ''c2'', name = ''C'', phone = ''3'', email = None\<rparr>])
     = [\<lparr>cid = ''c1'', name = ''A'', phone = ''1'', email = Some []\<rparr>,
        \<lparr>cid = ''c2'', name = ''C'', phone = ''3'', email = None\<rparr>] \<and>
   length (snd (PUT_contact ''c1'' (Parsed (JObj [(''name'', JStr ''A''), (''phone'', JStr ''1'')]))
          [\<lparr>cid = ''c1'', name = ''B'', phone = ''2'', email = Some ''b@example.com''\<rparr>,
           \<lparr>cid = ''c2'', name = ''C'', phone = ''3'', email = None\<rparr>])) = 2"
proof -
  have ok: "fst (PUT_contact ''c1'' (Parsed (JObj [(''name'', JStr ''A''), (''phone'', JStr ''1'')]))
          [\<lparr>cid = ''c1'', name = ''B'', phone = ''2'', email = Some ''b@example.com''\<rparr>,
           \<lparr>cid = ''c2'', name = ''C'', phone = ''3'', email = None\<rparr>])
        = Reply 200 (ContactJson \<lparr>cid = ''c1'', name = ''A'', phone = ''1'', email = Some []\<rparr>)"
    by (simp add: PUT_contact_def put_contact_def destructure_def body_or_empty_def
        stmtGet_get_def stmtUpd_run_def bind_def)
  show ?thesis
    using put_changes_only_the_matching_row [OF ok]
    by (simp add: PUT_contact_def put_contact_def destructure_def body_or_empty_def
        stmtGet_get_def stmtUpd_run_def bind_def)
qed

subsection \<open>The invariant of the table\<close>

text \<open>
  The ids stay distinct under every request: the insert refuses an id the table has, and
  an update never touches an id.
\<close>

lemma stmtAdd_run_appends:
  assumes "stmtAdd_run i n p e db = Inr db'"
  shows "\<exists>r. db' = db @ [r] \<and> cid r \<notin> set (map cid db)"
  using assms
  by (auto simp: stmtAdd_run_def split: sum.splits list.splits option.splits if_splits)

lemma stmtAdd_run_string_fields:
  assumes "stmtAdd_run i (JStr n) (JStr p) e db = Inr db'"
  shows "\<exists>e'. db' = db @ [\<lparr>cid = i, name = n, phone = p, email = e'\<rparr>]"
  using assms
  by (auto simp: stmtAdd_run_def bind_def split: sum.splits list.splits option.splits if_splits)

lemma stmtUpd_run_string_fields:
  assumes "stmtUpd_run (JStr n) (JStr p) e i db = Inr db'"
  shows "db' = db \<or>
         (\<exists>e'. db' = map (\<lambda>r. if cid r = i
                                then r\<lparr>name := n, phone := p, email := e'\<rparr>
                                else r) db)"
proof -
  obtain vals where b: "bind 4 [JStr n, JStr p, e, JStr i] = Inr vals"
    using assms by (auto simp: stmtUpd_run_def split: sum.splits)
  then obtain a b' c where vals: "vals = [a, b', c, SqlText i]"
    using bind_four_last_id by blast
  have "a = SqlText n" "b' = SqlText p"
    using b by (auto simp: bind_def vals split: sum.splits if_splits)
  then show ?thesis
    using assms by (auto simp: stmtUpd_run_def b vals split: if_splits)
qed

lemma store_inv_append:
  "store_inv db \<Longrightarrow> cid r \<notin> set (map cid db) \<Longrightarrow> name r \<noteq> [] \<Longrightarrow> phone r \<noteq> [] \<Longrightarrow>
   store_inv (db @ [r])"
  by (auto simp: store_inv_def)

lemma map_cid_update:
  "map cid (map (\<lambda>r. if cid r = i then r\<lparr>name := n, phone := p, email := e\<rparr> else r) db)
   = map cid db"
  by (induction db) auto

lemma store_inv_update:
  assumes "store_inv db" "n \<noteq> []" "p \<noteq> []"
  shows "store_inv (map (\<lambda>r. if cid r = i then r\<lparr>name := n, phone := p, email := e\<rparr> else r) db)"
proof -
  have "distinct (map cid (map (\<lambda>r. if cid r = i then r\<lparr>name := n, phone := p, email := e\<rparr> else r) db))"
    using assms(1) by (simp only: map_cid_update store_inv_def)
  moreover have "list_all (\<lambda>r. name r \<noteq> [] \<and> phone r \<noteq> [])
                   (map (\<lambda>r. if cid r = i then r\<lparr>name := n, phone := p, email := e\<rparr> else r) db)"
    using assms by (auto simp: store_inv_def list_all_iff)
  ultimately show ?thesis
    by (simp only: store_inv_def)
qed

lemma post_keeps_ids_distinct:
  "distinct (map cid db) \<Longrightarrow> distinct (map cid (snd (POST_contacts uid raw db)))"
  by (auto simp: POST_contacts_def post_contacts_def
      split: sum.splits prod.splits option.splits dest!: stmtAdd_run_appends)

lemma put_keeps_ids:
  "map cid (snd (PUT_contact i raw db)) = map cid db"
  by (auto simp: PUT_contact_def post_contacts_def put_contact_def map_cid_update
      split: sum.splits prod.splits option.splits dest!: stmtUpd_run_shape)

text \<open>
  \<open>DELETE\<close> and the seeding keep the invariant, and so do \<open>POST\<close> and \<open>PUT\<close> on a body
  whose \<open>name\<close> and \<open>phone\<close> are strings (or missing), whatever \<open>email\<close> is.
\<close>

lemma delete_preserves_inv: "store_inv db \<Longrightarrow> store_inv (snd (delete_contact i db))"
  by (auto simp: delete_contact_def stmtDel_run_def Let_def store_inv_def
      distinct_map_filter list_all_iff)

lemma startup_preserves_inv: "store_inv db \<Longrightarrow> store_inv (snd (startup u1 u2 db))"
proof -
  have pe: "\<And>s. plain_email (JStr s)" by (simp add: plain_email_def)
  show "store_inv db \<Longrightarrow> store_inv (snd (startup u1 u2 db))"
    by (cases db) (auto simp: startup_def Let_def stmtAdd_run_strings pe store_inv_def)
qed

lemma post_strings_preserves_inv:
  assumes "store_inv db"
    and "string_or_missing (field raw ''name'')" "string_or_missing (field raw ''phone'')"
  shows "store_inv (snd (POST_contacts uid raw db))"
proof (cases "express_json raw")
  case (Inl ex)
  then show ?thesis using assms(1) by (simp add: POST_contacts_def)
next
  case (Inr body)
  note d = destructure_field[OF Inr]
  show ?thesis
  proof (cases "truthy (field raw ''name'') \<and> truthy (field raw ''phone'')")
    case False
    then show ?thesis
      using assms(1) by (auto simp: POST_contacts_def Inr post_contacts_def d)
  next
    case True
    then obtain n p where np: "field raw ''name'' = JStr n" "n \<noteq> []"
        "field raw ''phone'' = JStr p" "p \<noteq> []"
      using assms(2,3)
      by (cases "field raw ''name''"; cases "field raw ''phone''")
        (auto simp: string_or_missing_def)
    show ?thesis
    proof (cases "stmtAdd_run uid (JStr n) (JStr p)
                    (if field raw ''email'' = JUndefined then JStr [] else field raw ''email'') db")
      case (Inl ex)
      then show ?thesis
        using assms(1) np by (simp add: POST_contacts_def \<open>express_json raw = Inr body\<close> post_contacts_def d)
    next
      case (Inr db')
      from stmtAdd_run_string_fields[OF Inr] stmtAdd_run_appends[OF Inr]
      obtain e' where db': "db' = db @ [\<lparr>cid = uid, name = n, phone = p, email = e'\<rparr>]"
        and fresh: "uid \<notin> set (map cid db)"
        by auto
      have "store_inv db'"
        unfolding db' using assms(1) fresh np by (intro store_inv_append) simp_all
      then show ?thesis
        using np Inr
        by (auto simp: POST_contacts_def \<open>express_json raw = Inr body\<close> post_contacts_def d
            split: option.splits)
    qed
  qed
qed

lemma put_strings_preserves_inv:
  assumes "store_inv db"
    and "string_or_missing (field raw ''name'')" "string_or_missing (field raw ''phone'')"
  shows "store_inv (snd (PUT_contact i raw db))"
proof (cases "express_json raw")
  case (Inl ex)
  then show ?thesis using assms(1) by (simp add: PUT_contact_def)
next
  case (Inr body)
  note d = destructure_field[OF Inr]
  show ?thesis
  proof (cases "truthy (field raw ''name'') \<and> truthy (field raw ''phone'')")
    case False
    then show ?thesis
      using assms(1) by (auto simp: PUT_contact_def Inr put_contact_def d)
  next
    case True
    then obtain n p where np: "field raw ''name'' = JStr n" "n \<noteq> []"
        "field raw ''phone'' = JStr p" "p \<noteq> []"
      using assms(2,3)
      by (cases "field raw ''name''"; cases "field raw ''phone''")
        (auto simp: string_or_missing_def)
    show ?thesis
      using assms(1) np
      by (auto simp: PUT_contact_def Inr put_contact_def d store_inv_update
          split: option.splits sum.splits dest!: stmtUpd_run_string_fields)
  qed
qed

text \<open>
  Claim C5 does not hold of \<open>POST\<close> (nor of \<open>PUT\<close>) on every body. An array is truthy, so
  the body \<open>{name: [""], phone: "1"}\<close> passes the check \<open>!name || !phone\<close>;
  \<open>stmtAdd.run(id, [""], "1", "")\<close> binds the element of the array as the second
  parameter, and a row with the empty string as \<open>name\<close> is inserted and returned with
  201. The table before satisfies the invariant, the table after does not.
\<close>

theorem post_array_name_stores_empty_name:
  "store_inv [] \<and>
   POST_contacts ''u1'' (Parsed (JObj [(''name'', JArr [JStr []]), (''phone'', JStr ''1'')])) []
     = (Reply 201 (ContactJson \<lparr>cid = ''u1'', name = [], phone = ''1'', email = Some []\<rparr>),
        [\<lparr>cid = ''u1'', name = [], phone = ''1'', email = Some []\<rparr>]) \<and>
   \<not> store_inv (snd (POST_contacts ''u1''
        (Parsed (JObj [(''name'', JArr [JStr []]), (''phone'', JStr ''1'')])) []))"
  by (simp add: store_inv_def POST_contacts_def post_contacts_def destructure_def
      body_or_empty_def stmtAdd_run_def bind_def stmtGet_get_def)

end
